theory Spec2Isabelle
  imports Complex_Main "HOL-Library.Sublist" "HOL-Library.AList"
begin

section \<open>JavaScript values used by the program\<close>

text \<open>
  Numbers. A JavaScript \<^verbatim>\<open>number\<close> is a double. Every number the modelled code computes
  with is an integer (counters, points, energy, array indices, millisecond time values):
  they are modelled as \<^typ>\<open>int\<close> (as \<^typ>\<open>nat\<close> for the loop counters and cells of the
  edit-distance matrix), and \<open>+\<close> and \<open>-\<close> of the model are exact. Those of the code are
  exact as long as the operands and the result are safe integers, of magnitude at most
  \<open>MAX_SAFE_INTEGER = 2^53 - 1\<close>; beyond, the code rounds to the nearest double. A
  theorem that states the value of a sum or a difference the code computes therefore
  assumes that the values are safe integers. The one
  fraction, the similarity \<^verbatim>\<open>1 - distance / maxLen\<close>, is modelled by its exact value in
  \<^typ>\<open>real\<close>; the program only compares it with \<^verbatim>\<open>0.85\<close>, and for strings shorter than
  \<open>2^30\<close> code units the double computation decides that comparison as the exact one does
  (off the boundary the exact values differ by more than \<open>1 / (20 * 2^30)\<close>, far above
  the rounding error; on the boundary \<^verbatim>\<open>1 - 3/20\<close> rounds to the double \<^verbatim>\<open>0.85\<close>).

  Strings. A JavaScript string is a sequence of code units; \<^verbatim>\<open>length\<close>, \<^verbatim>\<open>charAt\<close> and
  \<^verbatim>\<open>===\<close> work on code units. The model is \<^typ>\<open>string\<close>, whose 8-bit characters stand
  for the code units U+0000 to U+00FF. On that range the built-ins \<^verbatim>\<open>trim\<close> and
  \<^verbatim>\<open>toLowerCase\<close> of the language act as defined below.

  Errors. A \<^verbatim>\<open>throw\<close> is a value of type \<open>error\<close>: \<open>TypeError\<close> for a method call
  on \<^verbatim>\<open>undefined\<close>, \<open>Error msg\<close> for \<^verbatim>\<open>throw new Error(msg)\<close>.
\<close>

datatype error = TypeError | Error string

definition MAX_SAFE_INTEGER :: int where
  "MAX_SAFE_INTEGER = 2 ^ 53 - 1"

definition isWhiteSpace :: "char \<Rightarrow> bool" where
  "isWhiteSpace c = (of_char c \<in> {9, 10, 11, 12, 13, 32, 160 :: nat})"

definition trim :: "string \<Rightarrow> string" where
  "trim s = rev (dropWhile isWhiteSpace (rev (dropWhile isWhiteSpace s)))"

definition toLowerCase_unit :: "char \<Rightarrow> char" where
  "toLowerCase_unit c =
     (let n = (of_char c :: nat)
      in if (65 \<le> n \<and> n \<le> 90) \<or> (192 \<le> n \<and> n \<le> 222 \<and> n \<noteq> 215)
         then char_of (n + 32) else c)"

definition toLowerCase :: "string \<Rightarrow> string" where
  "toLowerCase s = map toLowerCase_unit s"

text \<open>\<^verbatim>\<open>s.includes(p)\<close>: \<open>p\<close> occurs in \<open>s\<close> as a contiguous run.\<close>

fun js_includes :: "string \<Rightarrow> string \<Rightarrow> bool" where
  "js_includes [] p = (p = [])"
| "js_includes (c # cs) p = (prefix p (c # cs) \<or> js_includes cs p)"

text \<open>
  \<^verbatim>\<open>xs[i]\<close> on an array: the element, or \<^verbatim>\<open>undefined\<close> (\<open>None\<close>) when the index is not one
  of the array. \<^verbatim>\<open>xs[i] = v\<close> overwrites an element, and appends when \<open>i\<close> is the length
  (the loops of the program never write further out).
\<close>

definition js_index :: "'a list \<Rightarrow> int \<Rightarrow> 'a option" where
  "js_index xs i = (if 0 \<le> i \<and> i < int (length xs) then Some (xs ! nat i) else None)"

definition js_set :: "'a list \<Rightarrow> nat \<Rightarrow> 'a \<Rightarrow> 'a list" where
  "js_set xs i v = (if i < length xs then xs[i := v] else xs @ [v])"

section \<open>The question engine\<close>

datatype Difficulty = easy | medium | hard

record QuestionResult =
  isCorrect :: bool
  feedback :: string
  points :: int
  correctAnswer :: "string option"

text \<open>
  The three subclasses of the abstract class \<^verbatim>\<open>Question\<close>, each with the parameters of
  its constructor in the constructor's order. A question is never mutated.
\<close>

datatype Question =
    MultipleChoiceQuestion string "string list" int Difficulty
  | TranslationQuestion string string "string list" Difficulty
  | FillInBlankQuestion string string "string list" Difficulty

fun getText :: "Question \<Rightarrow> string" where
  "getText (MultipleChoiceQuestion txt choices correctIndex difficulty) = txt"
| "getText (TranslationQuestion txt sourceText acceptedTranslations difficulty) = txt"
| "getText (FillInBlankQuestion txt correctAns acceptedAnswers difficulty) = txt"

fun getDifficulty :: "Question \<Rightarrow> Difficulty" where
  "getDifficulty (MultipleChoiceQuestion txt choices correctIndex difficulty) = difficulty"
| "getDifficulty (TranslationQuestion txt sourceText acceptedTranslations difficulty) = difficulty"
| "getDifficulty (FillInBlankQuestion txt correctAns acceptedAnswers difficulty) = difficulty"

fun getBasePoints :: "Question \<Rightarrow> int" where
  "getBasePoints q = (case getDifficulty q of easy \<Rightarrow> 5 | medium \<Rightarrow> 10 | hard \<Rightarrow> 15)"

definition calculatePoints :: "Question \<Rightarrow> bool \<Rightarrow> bool \<Rightarrow> int" where
  "calculatePoints q correct isFirstTry =
     (if \<not> correct then 0
      else (let basePoints = getBasePoints q;
                bonus = (if isFirstTry then 5 else 0)
            in basePoints + bonus))"

subsection \<open>Translation: normalisation and the similarity of two strings\<close>

definition normalizeText :: "string \<Rightarrow> string" where
  "normalizeText txt = toLowerCase (trim txt)"

text \<open>
  \<^verbatim>\<open>levenshteinDistance\<close> fills a matrix with one row per prefix of \<open>str2\<close> and one
  column per prefix of \<open>str1\<close>. The three loops of the source are three folds over
  their index ranges, each step being the loop's body.
\<close>

definition matrix_set :: "nat list list \<Rightarrow> nat \<Rightarrow> nat \<Rightarrow> nat \<Rightarrow> nat list list" where
  "matrix_set matrix i j v = matrix[i := js_set (matrix ! i) j v]"

definition lev_cell :: "string \<Rightarrow> string \<Rightarrow> nat \<Rightarrow> nat list list \<Rightarrow> nat \<Rightarrow> nat list list" where
  "lev_cell str1 str2 i matrix j =
     (if str2 ! (i - 1) = str1 ! (j - 1)
      then matrix_set matrix i j (matrix ! (i - 1) ! (j - 1))
      else matrix_set matrix i j
             (min (matrix ! (i - 1) ! (j - 1) + 1)
                  (min (matrix ! i ! (j - 1) + 1) (matrix ! (i - 1) ! j + 1))))"

definition lev_row :: "string \<Rightarrow> string \<Rightarrow> nat list list \<Rightarrow> nat \<Rightarrow> nat list list" where
  "lev_row str1 str2 matrix i = foldl (lev_cell str1 str2 i) matrix [1..<Suc (length str1)]"

definition levenshteinDistance :: "string \<Rightarrow> string \<Rightarrow> nat" where
  "levenshteinDistance str1 str2 =
     (let m0 = foldl (\<lambda>matrix i. js_set matrix i [i]) [] [0..<Suc (length str2)];
          m1 = foldl (\<lambda>matrix j. matrix_set matrix 0 j j) m0 [0..<Suc (length str1)];
          m2 = foldl (lev_row str1 str2) m1 [1..<Suc (length str2)]
      in m2 ! length str2 ! length str1)"

definition calculateSimilarity :: "string \<Rightarrow> string \<Rightarrow> real" where
  "calculateSimilarity str1 str2 =
     (if str1 = str2 then 1
      else (let len1 = length str1; len2 = length str2
            in if len1 = 0 \<or> len2 = 0 then 0
               else (let maxLen = max len1 len2;
                         distance = levenshteinDistance str1 str2
                     in 1 - real distance / real maxLen)))"

definition isFuzzyMatch :: "string \<Rightarrow> string \<Rightarrow> bool" where
  "isFuzzyMatch str1 str2 = (let similarity = calculateSimilarity str1 str2 in similarity \<ge> 0.85)"

subsection \<open>The three \<^verbatim>\<open>checkAnswer\<close> methods\<close>

text \<open>
  The \<^verbatim>\<open>for ... of\<close> loop of \<^verbatim>\<open>TranslationQuestion.checkAnswer\<close>: \<open>Some\<close> of the result
  returned from inside the loop, \<open>None\<close> when the loop runs to its end.
\<close>

fun translation_loop :: "Question \<Rightarrow> string \<Rightarrow> bool \<Rightarrow> string list \<Rightarrow> QuestionResult option" where
  "translation_loop q normalized isFirstTry [] = None"
| "translation_loop q normalized isFirstTry (accepted # rest) =
     (let normalizedAccepted = normalizeText accepted
      in if normalized = normalizedAccepted
         then Some \<lparr>isCorrect = True, feedback = ''Correct!'',
                     points = calculatePoints q True isFirstTry, correctAnswer = None\<rparr>
         else if isFuzzyMatch normalized normalizedAccepted
         then Some \<lparr>isCorrect = True, feedback = ''Correct! (Note: minor typo detected)'',
                     points = calculatePoints q True isFirstTry, correctAnswer = None\<rparr>
         else translation_loop q normalized isFirstTry rest)"

text \<open>The loop of \<^verbatim>\<open>FillInBlankQuestion.checkAnswer\<close>, in the same way.\<close>

fun fillInBlank_loop :: "Question \<Rightarrow> string \<Rightarrow> bool \<Rightarrow> string list \<Rightarrow> QuestionResult option" where
  "fillInBlank_loop q normalized isFirstTry [] = None"
| "fillInBlank_loop q normalized isFirstTry (accepted # rest) =
     (if normalized = toLowerCase accepted
      then Some \<lparr>isCorrect = True, feedback = ''Correct!'',
                  points = calculatePoints q True isFirstTry, correctAnswer = None\<rparr>
      else fillInBlank_loop q normalized isFirstTry rest)"

definition generateHint :: "string \<Rightarrow> string \<Rightarrow> string" where
  "generateHint txt correctAns =
     (if js_includes txt ''yesterday'' \<or> js_includes txt ''ago''
      then ''Hint: Check the past tense form.''
      else ''Incorrect. The correct answer is: '' @ correctAns)"

text \<open>
  A template literal prints \<^verbatim>\<open>undefined\<close> as the text \<^verbatim>\<open>undefined\<close>; reading element 0 of
  an empty array gives \<^verbatim>\<open>undefined\<close>.
\<close>

definition template_text :: "string option \<Rightarrow> string" where
  "template_text v = (case v of None \<Rightarrow> ''undefined'' | Some s \<Rightarrow> s)"

text \<open>
  \<^verbatim>\<open>checkAnswer(answer, isFirstTry = false)\<close>, dispatched on the class of the question.
  In \<^verbatim>\<open>MultipleChoiceQuestion\<close> the call \<^verbatim>\<open>correctAnswer.toLowerCase()\<close> throws a
  \<^verbatim>\<open>TypeError\<close> when \<^verbatim>\<open>this.choices[this.correctIndex]\<close> is \<^verbatim>\<open>undefined\<close>.
\<close>

fun checkAnswer :: "Question \<Rightarrow> string \<Rightarrow> bool \<Rightarrow> error + QuestionResult" where
  "checkAnswer (MultipleChoiceQuestion txt choices correctIndex difficulty) answer isFirstTry =
     (let normalizedAnswer = toLowerCase (trim answer)
      in case js_index choices correctIndex of
           None \<Rightarrow> Inl TypeError
         | Some correctAns \<Rightarrow>
             (let normalizedCorrect = toLowerCase correctAns;
                  correct = (normalizedAnswer = normalizedCorrect);
                  pts = calculatePoints (MultipleChoiceQuestion txt choices correctIndex difficulty)
                          correct isFirstTry
              in if correct
                 then Inr \<lparr>isCorrect = True, feedback = ''Correct!'', points = pts,
                           correctAnswer = None\<rparr>
                 else Inr \<lparr>isCorrect = False,
                           feedback = ''Incorrect. The correct answer is: '' @ correctAns,
                           points = 0, correctAnswer = Some correctAns\<rparr>))"
| "checkAnswer (TranslationQuestion txt sourceText acceptedTranslations difficulty) answer isFirstTry =
     (let normalized = normalizeText answer
      in case translation_loop (TranslationQuestion txt sourceText acceptedTranslations difficulty)
                normalized isFirstTry acceptedTranslations of
           Some r \<Rightarrow> Inr r
         | None \<Rightarrow>
             Inr \<lparr>isCorrect = False,
                  feedback = ''Not quite. Expected: '' @ template_text (js_index acceptedTranslations 0),
                  points = 0, correctAnswer = js_index acceptedTranslations 0\<rparr>)"
| "checkAnswer (FillInBlankQuestion txt correctAns acceptedAnswers difficulty) answer isFirstTry =
     (let normalized = toLowerCase (trim answer)
      in case fillInBlank_loop (FillInBlankQuestion txt correctAns acceptedAnswers difficulty)
                normalized isFirstTry acceptedAnswers of
           Some r \<Rightarrow> Inr r
         | None \<Rightarrow>
             Inr \<lparr>isCorrect = False, feedback = generateHint txt correctAns,
                  points = 0, correctAnswer = Some correctAns\<rparr>)"

section \<open>Gamification: the combo system\<close>

text \<open>
  \<^verbatim>\<open>class ComboSystem\<close> (gamification module): two counters, both JavaScript numbers
  holding integers. The constructor sets both to 0; \<^verbatim>\<open>recordAnswer\<close> is the only method
  that writes them.
\<close>

record ComboSystem =
  currentCombo :: int
  highestCombo :: int

definition new_ComboSystem :: ComboSystem where
  "new_ComboSystem = \<lparr>currentCombo = 0, highestCombo = 0\<rparr>"

definition ComboSystem_recordAnswer :: "bool \<Rightarrow> ComboSystem \<Rightarrow> ComboSystem" where
  "ComboSystem_recordAnswer correct c =
     (if correct then
        (let c1 = c\<lparr>currentCombo := currentCombo c + 1\<rparr>
         in if currentCombo c1 > highestCombo c1
            then c1\<lparr>highestCombo := currentCombo c1\<rparr>
            else c1)
      else c\<lparr>currentCombo := 0\<rparr>)"

text \<open>The state after a sequence of \<^verbatim>\<open>recordAnswer\<close> calls on a fresh object.\<close>

fun ComboSystem_run :: "ComboSystem \<Rightarrow> bool list \<Rightarrow> ComboSystem" where
  "ComboSystem_run c [] = c"
| "ComboSystem_run c (a # as) = ComboSystem_run (ComboSystem_recordAnswer a c) as"

text \<open>The invariant carried along a run: the counters are ordered and not negative.\<close>

definition ComboSystem_inv :: "ComboSystem \<Rightarrow> bool" where
  "ComboSystem_inv c = (currentCombo c \<le> highestCombo c \<and> 0 \<le> highestCombo c)"

section \<open>Gamification: achievements\<close>

text \<open>
  The clock. \<^verbatim>\<open>Date.now()\<close> returns the host's time in milliseconds; the program cannot
  choose what it returns. Every method that calls it takes the value read as a parameter
  \<open>now\<close> of the model, one parameter per call of \<^verbatim>\<open>Date.now()\<close>. A parameter with a
  default, \<^verbatim>\<open>f(t = Date.now())\<close>, is an \<^typ>\<open>int option\<close> argument: \<open>None\<close> when the caller
  leaves it out, and then the clock is read.
\<close>

datatype AchievementTier = bronze | silver | gold | platinum

record Achievement =
  achId :: string
  achName :: string
  achDescription :: string
  achTier :: AchievementTier
  unlocked :: bool
  unlockedAt :: "int option"

record AchievementData =
  dataId :: string
  dataName :: string
  dataDescription :: string
  dataTier :: AchievementTier
  dataUnlockedAt :: "int option"

definition new_Achievement :: "string \<Rightarrow> string \<Rightarrow> string \<Rightarrow> AchievementTier \<Rightarrow> Achievement" where
  "new_Achievement i n d t =
     \<lparr>achId = i, achName = n, achDescription = d, achTier = t,
      unlocked = False, unlockedAt = None\<rparr>"

definition isUnlocked :: "Achievement \<Rightarrow> bool" where
  "isUnlocked a = unlocked a"

definition unlock :: "int \<Rightarrow> Achievement \<Rightarrow> Achievement" where
  "unlock now a = (if \<not> unlocked a then a\<lparr>unlocked := True, unlockedAt := Some now\<rparr> else a)"

text \<open>\<^verbatim>\<open>x || y\<close> on a number or null: \<open>y\<close> when \<open>x\<close> is null or 0.\<close>

definition getUnlockedAt :: "Achievement \<Rightarrow> int" where
  "getUnlockedAt a = (case unlockedAt a of None \<Rightarrow> 0 | Some t \<Rightarrow> if t = 0 then 0 else t)"

definition toData :: "Achievement \<Rightarrow> AchievementData" where
  "toData a =
     \<lparr>dataId = achId a, dataName = achName a, dataDescription = achDescription a,
      dataTier = achTier a,
      dataUnlockedAt = (case unlockedAt a of None \<Rightarrow> None
                        | Some t \<Rightarrow> if t = 0 then None else Some t)\<rparr>"

text \<open>
  The tracker's \<^verbatim>\<open>Map<string, Achievement>\<close> keeps its entries in insertion order:
  an association list. \<^verbatim>\<open>set\<close> is \<^const>\<open>AList.update\<close>, \<^verbatim>\<open>get\<close> is \<^const>\<open>map_of\<close>, and
  \<^verbatim>\<open>get(k)?.unlock()\<close>, which mutates the stored object if there is one, is
  \<^const>\<open>AList.map_entry\<close>. The achievement objects are reachable through the map only.
\<close>

record AchievementTracker =
  trackerUserId :: string
  achievements :: "(string \<times> Achievement) list"

definition achievementConfigs :: "(string \<times> string \<times> string \<times> AchievementTier) list" where
  "achievementConfigs =
     [(''first-lesson'', ''First Steps'', ''Complete your first lesson'', bronze),
      (''ten-lessons'', ''Getting Started'', ''Complete 10 lessons'', silver),
      (''week-streak'', ''Week Warrior'', ''Maintain a 7-day streak'', gold),
      (''month-streak'', ''Dedication Master'', ''Maintain a 30-day streak'', platinum)]"

definition initializeAchievements :: "AchievementTracker \<Rightarrow> AchievementTracker" where
  "initializeAchievements t =
     foldl (\<lambda>t (i, n, d, tr).
              t\<lparr>achievements := AList.update i (new_Achievement i n d tr) (achievements t)\<rparr>)
       t achievementConfigs"

definition new_AchievementTracker :: "string \<Rightarrow> AchievementTracker" where
  "new_AchievementTracker uid = initializeAchievements \<lparr>trackerUserId = uid, achievements = []\<rparr>"

definition unlock_entry :: "int \<Rightarrow> string \<Rightarrow> AchievementTracker \<Rightarrow> AchievementTracker" where
  "unlock_entry now k t = t\<lparr>achievements := AList.map_entry k (unlock now) (achievements t)\<rparr>"

definition checkLessonCompletion :: "int \<Rightarrow> int \<Rightarrow> int \<Rightarrow> AchievementTracker \<Rightarrow> AchievementTracker" where
  "checkLessonCompletion now1 now2 lessonCount t =
     (let t1 = (if lessonCount \<ge> 1 then unlock_entry now1 ''first-lesson'' t else t);
          t2 = (if lessonCount \<ge> 10 then unlock_entry now2 ''ten-lessons'' t1 else t1)
      in t2)"

definition checkStreak :: "int \<Rightarrow> int \<Rightarrow> int \<Rightarrow> AchievementTracker \<Rightarrow> AchievementTracker" where
  "checkStreak now1 now2 streakDays t =
     (let t1 = (if streakDays \<ge> 7 then unlock_entry now1 ''week-streak'' t else t);
          t2 = (if streakDays \<ge> 30 then unlock_entry now2 ''month-streak'' t1 else t1)
      in t2)"

definition getUnlockedAchievements :: "AchievementTracker \<Rightarrow> AchievementData list" where
  "getUnlockedAchievements t = map toData (filter isUnlocked (map snd (achievements t)))"

text \<open>A call of one of the two checking methods, with the clock values its unlocks read.\<close>

datatype TrackerOp = CheckLessonCompletion int int int | CheckStreak int int int

fun tracker_step :: "TrackerOp \<Rightarrow> AchievementTracker \<Rightarrow> AchievementTracker" where
  "tracker_step (CheckLessonCompletion now1 now2 n) t = checkLessonCompletion now1 now2 n t"
| "tracker_step (CheckStreak now1 now2 n) t = checkStreak now1 now2 n t"

fun tracker_run :: "AchievementTracker \<Rightarrow> TrackerOp list \<Rightarrow> AchievementTracker" where
  "tracker_run t [] = t"
| "tracker_run t (op # ops) = tracker_run (tracker_step op t) ops"

section \<open>Gamification: the energy system\<close>

record EnergySystem =
  maxEnergy :: int
  currentEnergy :: int
  lastUpdate :: int

definition new_EnergySystem :: "int \<Rightarrow> int \<Rightarrow> EnergySystem" where
  "new_EnergySystem now maxE = \<lparr>maxEnergy = maxE, currentEnergy = maxE, lastUpdate = now\<rparr>"

definition hasEnergy :: "EnergySystem \<Rightarrow> bool" where
  "hasEnergy e = (currentEnergy e > 0)"

definition EnergySystem_recordAnswer :: "int \<Rightarrow> bool \<Rightarrow> EnergySystem \<Rightarrow> EnergySystem" where
  "EnergySystem_recordAnswer now correct e =
     (if \<not> correct \<and> currentEnergy e > 0
      then e\<lparr>currentEnergy := currentEnergy e - 1, lastUpdate := now\<rparr>
      else e)"

text \<open>
  \<^verbatim>\<open>Math.floor((currentTime - lastUpdate) / (60 * 60 * 1000))\<close> is the integer quotient
  rounded down, which is \<open>div\<close> on \<^typ>\<open>int\<close>: the difference is exact when it is a safe
  integer, and then the rounding error of the double quotient is below \<open>1 / 3600000\<close>, the
  least distance of an inexact quotient from a whole number. The sum
  \<^verbatim>\<open>currentEnergy + energyToRegenerate\<close> may leave the safe integers; as rounding keeps
  the order and the maximum is a safe integer, \<^verbatim>\<open>Math.min\<close> of the maximum and the rounded
  sum is that of the maximum and the exact sum.
\<close>

definition regenerate :: "int \<Rightarrow> int option \<Rightarrow> EnergySystem \<Rightarrow> EnergySystem" where
  "regenerate now currentTimeArg e =
     (let currentTime = (case currentTimeArg of None \<Rightarrow> now | Some t \<Rightarrow> t)
      in if currentEnergy e \<ge> maxEnergy e then e
         else (let energyToRegenerate = (currentTime - lastUpdate e) div (60 * 60 * 1000)
               in if energyToRegenerate > 0
                  then e\<lparr>currentEnergy := min (maxEnergy e) (currentEnergy e + energyToRegenerate),
                         lastUpdate := currentTime\<rparr>
                  else e))"

definition refill :: "int \<Rightarrow> EnergySystem \<Rightarrow> EnergySystem" where
  "refill now e = e\<lparr>currentEnergy := maxEnergy e, lastUpdate := now\<rparr>"

text \<open>
  The states an energy system constructed with \<open>maxE\<close> can be in: the constructor's,
  and those any of the three mutating methods makes of one, whatever the arguments and
  whatever the clock shows.
\<close>

inductive EnergySystem_reachable :: "int \<Rightarrow> EnergySystem \<Rightarrow> bool" for maxE :: int where
  constructed: "EnergySystem_reachable maxE (new_EnergySystem now maxE)"
| answered: "EnergySystem_reachable maxE e \<Longrightarrow>
     EnergySystem_reachable maxE (EnergySystem_recordAnswer now correct e)"
| regenerated: "EnergySystem_reachable maxE e \<Longrightarrow>
     EnergySystem_reachable maxE (regenerate now currentTimeArg e)"
| refilled: "EnergySystem_reachable maxE e \<Longrightarrow>
     EnergySystem_reachable maxE (refill now e)"

section \<open>User progress\<close>

text \<open>
  Dates. A \<^verbatim>\<open>Date\<close> is its time value, the milliseconds since the epoch in UTC; the
  model covers valid dates (no \<^verbatim>\<open>NaN\<close> time value) from the year 100 on (the
  \<^verbatim>\<open>Date(y, m, d)\<close> constructor reads a year below 100 as a year of the 20th century).
  \<^verbatim>\<open>getFullYear\<close>, \<^verbatim>\<open>getMonth\<close> and \<^verbatim>\<open>getDate\<close> read the calendar day of the date in the
  host's local time, and \<^verbatim>\<open>new Date(y, m, d)\<close> is the instant at which that local day
  begins. The language defines both through the host's offset from UTC,
  \<open>LocalTZA(t, isUTC)\<close>: the offset in force at the UTC instant \<open>t\<close> when \<open>isUTC\<close>, and at
  the local time \<open>t\<close> otherwise. The offset is the host's, not the program's: it is the
  parameter \<open>tza\<close> of the model. So \<^verbatim>\<open>stripTime(date)\<close> is
  \<open>UTC (Day (LocalTime date) * msPerDay)\<close>.
\<close>

type_synonym LocalTZA = "int \<Rightarrow> bool \<Rightarrow> int"

definition msPerDay :: int where
  "msPerDay = 24 * 60 * 60 * 1000"

definition LocalTime :: "LocalTZA \<Rightarrow> int \<Rightarrow> int" where
  "LocalTime tza t = t + tza t True"

definition UTC :: "LocalTZA \<Rightarrow> int \<Rightarrow> int" where
  "UTC tza t = t - tza t False"

definition Day :: "int \<Rightarrow> int" where
  "Day t = t div msPerDay"

record UserProgress =
  userId :: string
  xp :: int
  level :: int
  streak :: int
  lastActivityDate :: "int option"
  completedLessons :: "string list"

definition XP_THRESHOLDS :: "int list" where
  "XP_THRESHOLDS = [0, 100, 250, 500, 1000, 2000, 4000, 8000]"

definition new_UserProgress :: "string \<Rightarrow> UserProgress" where
  "new_UserProgress uid =
     \<lparr>userId = uid, xp = 0, level = 1, streak = 0, lastActivityDate = None,
      completedLessons = []\<rparr>"

text \<open>
  The loop of \<^verbatim>\<open>updateLevel\<close> counts \<open>i\<close> down from the last index to 0 and stops at the
  first threshold the experience reaches. The argument \<open>n\<close> of the model is \<open>i + 1\<close>:
  \<open>Suc i\<close> is the iteration at index \<open>i\<close>, and \<open>0\<close> is the loop's exit with nothing found.
\<close>

fun updateLevel_loop :: "nat \<Rightarrow> UserProgress \<Rightarrow> UserProgress" where
  "updateLevel_loop 0 u = u"
| "updateLevel_loop (Suc i) u =
     (if xp u \<ge> XP_THRESHOLDS ! i then u\<lparr>level := int i + 1\<rparr>
      else updateLevel_loop i u)"

definition updateLevel :: "UserProgress \<Rightarrow> UserProgress" where
  "updateLevel u = updateLevel_loop (length XP_THRESHOLDS) u"

text \<open>
  A method that may throw returns the outcome (the error, or the value returned) and the
  state of the object after the call. The sum \<^verbatim>\<open>this.xp += amount\<close> is exact when it is a
  safe integer; the experience never decreases, so when it is a safe integer after a run
  of calls, every sum of the run was exact.
\<close>

definition addXP :: "int \<Rightarrow> UserProgress \<Rightarrow> (error + bool) \<times> UserProgress" where
  "addXP amount u =
     (if amount < 0 then (Inl (Error ''XP must be positive''), u)
      else (let oldLevel = level u;
                u1 = u\<lparr>xp := xp u + amount\<rparr>;
                u2 = updateLevel u1
            in (Inr (level u2 > oldLevel), u2)))"

definition stripTime :: "LocalTZA \<Rightarrow> int \<Rightarrow> int" where
  "stripTime tza date = UTC tza (Day (LocalTime tza date) * msPerDay)"

definition getDaysDifference :: "int \<Rightarrow> int \<Rightarrow> int" where
  "getDaysDifference date1 date2 = (let diff = date2 - date1 in diff div msPerDay)"

definition recordActivity :: "LocalTZA \<Rightarrow> int \<Rightarrow> int option \<Rightarrow> UserProgress \<Rightarrow> UserProgress" where
  "recordActivity tza now dateArg u =
     (let date = (case dateArg of None \<Rightarrow> now | Some d \<Rightarrow> d);
          today = stripTime tza date
      in case lastActivityDate u of
           None \<Rightarrow> u\<lparr>streak := 1, lastActivityDate := Some today\<rparr>
         | Some lastDate \<Rightarrow>
             (let lastActivity = stripTime tza lastDate;
                  daysDiff = getDaysDifference lastActivity today
              in if daysDiff = 0 then u
                 else if daysDiff = 1
                 then u\<lparr>streak := streak u + 1, lastActivityDate := Some today\<rparr>
                 else u\<lparr>streak := 1, lastActivityDate := Some today\<rparr>))"

definition completeLesson :: "string \<Rightarrow> UserProgress \<Rightarrow> UserProgress" where
  "completeLesson lessonId u =
     (if lessonId \<in> set (completedLessons u) then u
      else u\<lparr>completedLessons := completedLessons u @ [lessonId]\<rparr>)"

text \<open>
  The calls that change a user's progress, and a run of them on one object. A call of
  \<^verbatim>\<open>addXP\<close> that throws leaves the object as \<^const>\<open>addXP\<close> returns it.
\<close>

datatype UserOp = AddXP int | RecordActivity int "int option" | CompleteLesson string

fun user_step :: "LocalTZA \<Rightarrow> UserOp \<Rightarrow> UserProgress \<Rightarrow> UserProgress" where
  "user_step tza (AddXP amount) u = snd (addXP amount u)"
| "user_step tza (RecordActivity now dateArg) u = recordActivity tza now dateArg u"
| "user_step tza (CompleteLesson lessonId) u = completeLesson lessonId u"

fun user_run :: "LocalTZA \<Rightarrow> UserProgress \<Rightarrow> UserOp list \<Rightarrow> UserProgress" where
  "user_run tza u [] = u"
| "user_run tza u (op # ops) = user_run tza (user_step tza op u) ops"

text \<open>
  Two hosts. One whose local time keeps a constant offset from UTC; and one on the rules
  of New York in 2024: five hours behind UTC, four hours behind from 2024-03-10 07:00 UTC
  (02:00 local time) to 2024-11-03 06:00 UTC. A local time that the change of March skips
  or the change of November repeats is read with the offset before the change.
\<close>

definition fixed_offset :: "int \<Rightarrow> LocalTZA" where
  "fixed_offset off = (\<lambda>t isUTC. off)"

definition msPerHour :: int where
  "msPerHour = 60 * 60 * 1000"

definition New_York_2024 :: LocalTZA where
  "New_York_2024 = (\<lambda>t isUTC.
     if isUTC
     then (if 1710054000000 \<le> t \<and> t < 1730613600000 then - 4 * msPerHour else - 5 * msPerHour)
     else (if 1710039600000 \<le> t \<and> t < 1730599200000 then - 4 * msPerHour else - 5 * msPerHour))"

section \<open>Notions used in the statements\<close>

text \<open>
  The states a tracker goes through in a run, the first one included; whether the
  achievement stored under a key is unlocked; and how often, along a list of states, it
  goes from locked to unlocked and from unlocked to locked.
\<close>

fun tracker_trace :: "AchievementTracker \<Rightarrow> TrackerOp list \<Rightarrow> AchievementTracker list" where
  "tracker_trace t [] = [t]"
| "tracker_trace t (op # ops) = t # tracker_trace (tracker_step op t) ops"

definition entry_unlocked :: "string \<Rightarrow> AchievementTracker \<Rightarrow> bool" where
  "entry_unlocked k t = (case map_of (achievements t) k of None \<Rightarrow> False | Some a \<Rightarrow> unlocked a)"

fun unlock_transitions :: "string \<Rightarrow> AchievementTracker list \<Rightarrow> nat" where
  "unlock_transitions k (s # s' # ss) =
     (if \<not> entry_unlocked k s \<and> entry_unlocked k s' then 1 else 0) + unlock_transitions k (s' # ss)"
| "unlock_transitions k ss = 0"

fun relock_transitions :: "string \<Rightarrow> AchievementTracker list \<Rightarrow> nat" where
  "relock_transitions k (s # s' # ss) =
     (if entry_unlocked k s \<and> \<not> entry_unlocked k s' then 1 else 0) + relock_transitions k (s' # ss)"
| "relock_transitions k ss = 0"

text \<open>The well-formed trackers: no key twice, and each achievement stored under its id.\<close>

definition tracker_wf :: "AchievementTracker \<Rightarrow> bool" where
  "tracker_wf t =
     (distinct (map fst (achievements t)) \<and> list_all (\<lambda>(k, a). achId a = k) (achievements t))"

text \<open>
  The level as the specification words it: one more than the highest index of a
  threshold that does not exceed the experience.
\<close>

definition highest_threshold_index :: "int \<Rightarrow> nat" where
  "highest_threshold_index x =
     Max (set (filter (\<lambda>i. XP_THRESHOLDS ! i \<le> x) [0..<length XP_THRESHOLDS]))"

definition spec_level :: "int \<Rightarrow> int" where
  "spec_level x = int (highest_threshold_index x) + 1"

text \<open>The base points of a difficulty, as the specification lists them.\<close>

definition basePoints :: "Difficulty \<Rightarrow> int" where
  "basePoints d = (case d of easy \<Rightarrow> 5 | medium \<Rightarrow> 10 | hard \<Rightarrow> 15)"


section \<open>Properties of the combo system\<close>

lemma ComboSystem_recordAnswer_inv:
  "ComboSystem_inv c \<Longrightarrow> ComboSystem_inv (ComboSystem_recordAnswer a c)"
  by (simp add: ComboSystem_inv_def ComboSystem_recordAnswer_def Let_def)

lemma ComboSystem_recordAnswer_highest_mono:
  "highestCombo c \<le> highestCombo (ComboSystem_recordAnswer a c)"
  by (simp add: ComboSystem_recordAnswer_def Let_def)

lemma ComboSystem_run_inv:
  "ComboSystem_inv c \<Longrightarrow> ComboSystem_inv (ComboSystem_run c as)"
proof (induction as arbitrary: c)
  case Nil
  then show ?case by simp
next
  case (Cons a as)
  from Cons.prems have "ComboSystem_inv (ComboSystem_recordAnswer a c)"
    by (rule ComboSystem_recordAnswer_inv)
  then show ?case using Cons.IH by simp
qed

lemma ComboSystem_run_highest_mono:
  "highestCombo c \<le> highestCombo (ComboSystem_run c as)"
proof (induction as arbitrary: c)
  case Nil
  show ?case by simp
next
  case (Cons a as)
  have "highestCombo c \<le> highestCombo (ComboSystem_recordAnswer a c)"
    by (rule ComboSystem_recordAnswer_highest_mono)
  also have "\<dots> \<le> highestCombo (ComboSystem_run (ComboSystem_recordAnswer a c) as)"
    by (rule Cons.IH)
  finally show ?case by simp
qed

text \<open>
  Claim C9. In every state reached from the freshly constructed combo system by a
  sequence of \<^verbatim>\<open>recordAnswer\<close> calls, the current combo is at most the highest combo;
  and the highest combo never decreases: not across one further call, and not across any
  further sequence of calls.
\<close>

theorem C9_combo_current_le_highest:
  "currentCombo (ComboSystem_run new_ComboSystem as)
     \<le> highestCombo (ComboSystem_run new_ComboSystem as)
   \<and> highestCombo (ComboSystem_run new_ComboSystem as)
     \<le> highestCombo (ComboSystem_recordAnswer a (ComboSystem_run new_ComboSystem as))
   \<and> highestCombo (ComboSystem_run new_ComboSystem as)
     \<le> highestCombo (ComboSystem_run (ComboSystem_run new_ComboSystem as) bs)"
proof (intro conjI)
  have "ComboSystem_inv new_ComboSystem"
    by (simp add: ComboSystem_inv_def new_ComboSystem_def)
  then have "ComboSystem_inv (ComboSystem_run new_ComboSystem as)"
    by (rule ComboSystem_run_inv)
  then show "currentCombo (ComboSystem_run new_ComboSystem as)
      \<le> highestCombo (ComboSystem_run new_ComboSystem as)"
    by (simp add: ComboSystem_inv_def)
next
  show "highestCombo (ComboSystem_run new_ComboSystem as)
      \<le> highestCombo (ComboSystem_recordAnswer a (ComboSystem_run new_ComboSystem as))"
    by (rule ComboSystem_recordAnswer_highest_mono)
next
  show "highestCombo (ComboSystem_run new_ComboSystem as)
      \<le> highestCombo (ComboSystem_run (ComboSystem_run new_ComboSystem as) bs)"
    by (rule ComboSystem_run_highest_mono)
qed

section \<open>Properties of the energy system\<close>

lemma EnergySystem_reachable_inv:
  assumes "EnergySystem_reachable maxE e" and "0 \<le> maxE"
  shows "maxEnergy e = maxE \<and> 0 \<le> currentEnergy e \<and> currentEnergy e \<le> maxE"
  using assms
proof (induction rule: EnergySystem_reachable.induct)
  case (constructed now)
  then show ?case by (simp add: new_EnergySystem_def)
next
  case (answered e now correct)
  then show ?case by (simp add: EnergySystem_recordAnswer_def)
next
  case (regenerated e now currentTimeArg)
  then show ?case by (simp add: regenerate_def Let_def)
next
  case (refilled e now)
  then show ?case by (simp add: refill_def)
qed

lemma regenerate_energy:
  assumes "currentEnergy e \<le> maxEnergy e"
  shows "currentEnergy (regenerate now arg e) =
     min (maxEnergy e) (currentEnergy e
        + max 0 (((case arg of None \<Rightarrow> now | Some t \<Rightarrow> t) - lastUpdate e) div (60 * 60 * 1000)))"
  using assms by (simp add: regenerate_def Let_def min_def max_def)

text \<open>
  Claim C5. For an energy system constructed with a maximum that is not negative (and a
  safe integer), in every state reachable by \<^verbatim>\<open>recordAnswer\<close>, \<^verbatim>\<open>regenerate\<close> and
  \<^verbatim>\<open>refill\<close> the energy is between 0 and the maximum. In such a state a wrong answer
  takes one unit away when the energy is above 0 and none otherwise, a correct answer
  changes nothing, \<^verbatim>\<open>regenerate\<close> adds the whole hours elapsed since the last update
  (none when the time given is not later; the elapsed time being a safe integer) and stops
  at the maximum, and \<^verbatim>\<open>refill\<close> sets the maximum.
\<close>

theorem C5_energy_bounds:
  assumes "0 \<le> maxE" and "maxE \<le> MAX_SAFE_INTEGER" and "EnergySystem_reachable maxE e"
  shows "0 \<le> currentEnergy e \<and> currentEnergy e \<le> maxEnergy e \<and> maxEnergy e = maxE
    \<and> currentEnergy (EnergySystem_recordAnswer now False e)
        = (if currentEnergy e > 0 then currentEnergy e - 1 else currentEnergy e)
    \<and> currentEnergy (EnergySystem_recordAnswer now True e) = currentEnergy e
    \<and> (\<bar>(case currentTimeArg of None \<Rightarrow> now | Some t \<Rightarrow> t) - lastUpdate e\<bar>
          \<le> MAX_SAFE_INTEGER \<longrightarrow>
        currentEnergy (regenerate now currentTimeArg e)
          = min (maxEnergy e) (currentEnergy e
              + max 0 (((case currentTimeArg of None \<Rightarrow> now | Some t \<Rightarrow> t) - lastUpdate e)
                         div (60 * 60 * 1000))))
    \<and> currentEnergy (refill now e) = maxEnergy e"
proof -
  from assms have inv: "maxEnergy e = maxE \<and> 0 \<le> currentEnergy e \<and> currentEnergy e \<le> maxE"
    by (simp add: EnergySystem_reachable_inv)
  have a: "currentEnergy (EnergySystem_recordAnswer now False e)
        = (if currentEnergy e > 0 then currentEnergy e - 1 else currentEnergy e)"
    by (simp add: EnergySystem_recordAnswer_def)
  have b: "currentEnergy (EnergySystem_recordAnswer now True e) = currentEnergy e"
    by (simp add: EnergySystem_recordAnswer_def)
  from inv have c: "currentEnergy (regenerate now currentTimeArg e)
        = min (maxEnergy e) (currentEnergy e
            + max 0 (((case currentTimeArg of None \<Rightarrow> now | Some t \<Rightarrow> t) - lastUpdate e)
                       div (60 * 60 * 1000)))"
    by (simp add: regenerate_energy)
  have d: "currentEnergy (refill now e) = maxEnergy e"
    by (simp add: refill_def)
  from inv a b c d show ?thesis by simp
qed

theorem C5_energy_bounds_witness:
  "(0::int) \<le> 5 \<and> 5 \<le> MAX_SAFE_INTEGER
   \<and> EnergySystem_reachable 5 (EnergySystem_recordAnswer 1000 False (new_EnergySystem 0 5))
   \<and> \<bar>36001000 - lastUpdate (EnergySystem_recordAnswer 1000 False (new_EnergySystem 0 5))\<bar>
       \<le> MAX_SAFE_INTEGER
   \<and> currentEnergy (EnergySystem_recordAnswer 1000 False (new_EnergySystem 0 5)) = 4
   \<and> currentEnergy (EnergySystem_recordAnswer 2000 False
        (EnergySystem_recordAnswer 1000 False (new_EnergySystem 0 5))) = 3
   \<and> currentEnergy (regenerate 2000 (Some 36001000)
        (EnergySystem_recordAnswer 1000 False (new_EnergySystem 0 5))) = 5"
proof -
  have m: "(5::int) \<le> MAX_SAFE_INTEGER"
    by (simp add: MAX_SAFE_INTEGER_def)
  have r: "EnergySystem_reachable 5 (EnergySystem_recordAnswer 1000 False (new_EnergySystem 0 5))"
    by (intro EnergySystem_reachable.intros)
  have v: "currentEnergy (EnergySystem_recordAnswer 1000 False (new_EnergySystem 0 5)) = 4"
    "lastUpdate (EnergySystem_recordAnswer 1000 False (new_EnergySystem 0 5)) = 1000"
    "maxEnergy (EnergySystem_recordAnswer 1000 False (new_EnergySystem 0 5)) = 5"
    by (simp_all add: EnergySystem_recordAnswer_def new_EnergySystem_def)
  have t: "\<bar>36001000 - lastUpdate (EnergySystem_recordAnswer 1000 False (new_EnergySystem 0 5))\<bar>
      \<le> MAX_SAFE_INTEGER"
    by (simp add: v MAX_SAFE_INTEGER_def)
  from C5_energy_bounds [where now = 2000 and currentTimeArg = "Some 36001000", OF _ m r] m r v t
  show ?thesis
    by simp
qed

section \<open>Properties of the achievement tracker\<close>

lemma unlock_unlocked: "unlocked a \<Longrightarrow> unlock now a = a"
  by (simp add: unlock_def)

lemma unlock_achId: "achId (unlock now a) = achId a"
  by (simp add: unlock_def)

lemma unlock_entry_lookup:
  "map_of (achievements (unlock_entry now k t)) k'
     = (if k' = k then map_option (unlock now) (map_of (achievements t) k)
        else map_of (achievements t) k')"
  by (simp add: unlock_entry_def map_of_map_entry split: option.split)

lemma unlock_entry_keeps:
  assumes "map_of (achievements t) k' = Some a" and "unlocked a"
  shows "map_of (achievements (unlock_entry now k t)) k' = Some a"
  using assms by (auto simp: unlock_entry_lookup unlock_unlocked)

lemma tracker_step_keeps:
  assumes "map_of (achievements t) k = Some a" and "unlocked a"
  shows "map_of (achievements (tracker_step op t)) k = Some a"
proof (cases op)
  case (CheckLessonCompletion now1 now2 n)
  with assms show ?thesis
    by (simp add: checkLessonCompletion_def Let_def unlock_entry_keeps)
next
  case (CheckStreak now1 now2 n)
  with assms show ?thesis
    by (simp add: checkStreak_def Let_def unlock_entry_keeps)
qed

lemma tracker_run_keeps:
  assumes "map_of (achievements t) k = Some a" and "unlocked a"
  shows "map_of (achievements (tracker_run t ops)) k = Some a"
  using assms
proof (induction ops arbitrary: t)
  case Nil
  then show ?case by simp
next
  case (Cons op ops)
  from Cons.prems have "map_of (achievements (tracker_step op t)) k = Some a"
    by (rule tracker_step_keeps)
  with Cons.IH Cons.prems(2) show ?case by simp
qed

lemma tracker_run_append: "tracker_run t (ops1 @ ops2) = tracker_run (tracker_run t ops1) ops2"
  by (induction ops1 arbitrary: t) simp_all

lemma entry_unlocked_step:
  assumes "entry_unlocked k t"
  shows "entry_unlocked k (tracker_step op t)"
proof -
  from assms obtain a where a: "map_of (achievements t) k = Some a" "unlocked a"
    by (auto simp: entry_unlocked_def split: option.splits)
  then have "map_of (achievements (tracker_step op t)) k = Some a"
    by (rule tracker_step_keeps)
  with a(2) show ?thesis by (simp add: entry_unlocked_def)
qed

lemma tracker_trace_hd: "\<exists>ss. tracker_trace t ops = t # ss"
  by (cases ops) simp_all

lemma unlock_transitions_unlocked:
  "entry_unlocked k t \<Longrightarrow> unlock_transitions k (tracker_trace t ops) = 0"
proof (induction ops arbitrary: t)
  case Nil
  then show ?case by simp
next
  case (Cons op ops)
  obtain ss where ss: "tracker_trace (tracker_step op t) ops = tracker_step op t # ss"
    using tracker_trace_hd by blast
  from Cons.prems have "entry_unlocked k (tracker_step op t)"
    by (rule entry_unlocked_step)
  then have "unlock_transitions k (tracker_trace (tracker_step op t) ops) = 0"
    by (rule Cons.IH)
  with Cons.prems ss show ?case by simp
qed

lemma unlock_transitions_le_1: "unlock_transitions k (tracker_trace t ops) \<le> 1"
proof (induction ops arbitrary: t)
  case Nil
  show ?case by simp
next
  case (Cons op ops)
  obtain ss where ss: "tracker_trace (tracker_step op t) ops = tracker_step op t # ss"
    using tracker_trace_hd by blast
  show ?case
  proof (cases "entry_unlocked k (tracker_step op t)")
    case True
    then have "unlock_transitions k (tracker_trace (tracker_step op t) ops) = 0"
      by (rule unlock_transitions_unlocked)
    with ss show ?thesis by simp
  next
    case False
    with ss Cons.IH [of "tracker_step op t"] show ?thesis by simp
  qed
qed

lemma relock_transitions_0: "relock_transitions k (tracker_trace t ops) = 0"
proof (induction ops arbitrary: t)
  case Nil
  show ?case by simp
next
  case (Cons op ops)
  obtain ss where ss: "tracker_trace (tracker_step op t) ops = tracker_step op t # ss"
    using tracker_trace_hd by blast
  with Cons.IH [of "tracker_step op t"] entry_unlocked_step [of k t op] show ?case
    by auto
qed

lemma unlock_entry_wf: "tracker_wf t \<Longrightarrow> tracker_wf (unlock_entry now k t)"
proof -
  have "list_all (\<lambda>(k, a). achId a = k) xs \<Longrightarrow>
        list_all (\<lambda>(k, a). achId a = k) (AList.map_entry k (unlock now) xs)" for xs
    by (induction xs) (auto simp: unlock_achId)
  then show "tracker_wf t \<Longrightarrow> tracker_wf (unlock_entry now k t)"
    by (simp add: tracker_wf_def unlock_entry_def distinct_map_entry)
qed

lemma tracker_step_wf: "tracker_wf t \<Longrightarrow> tracker_wf (tracker_step op t)"
  by (cases op) (simp_all add: checkLessonCompletion_def checkStreak_def Let_def unlock_entry_wf)

lemma tracker_run_wf: "tracker_wf t \<Longrightarrow> tracker_wf (tracker_run t ops)"
  by (induction ops arbitrary: t) (simp_all add: tracker_step_wf)

lemma new_AchievementTracker_wf: "tracker_wf (new_AchievementTracker uid)"
  by (simp add: tracker_wf_def new_AchievementTracker_def initializeAchievements_def
      achievementConfigs_def new_Achievement_def)

lemma count_unlocked_entries:
  assumes "distinct (map fst xs)" and "list_all (\<lambda>(k, a). achId a = k) xs"
  shows "length (filter (\<lambda>d. dataId d = k) (map toData (filter isUnlocked (map snd xs))))
     = (if (\<exists>a. map_of xs k = Some a \<and> unlocked a) then 1 else 0)"
  using assms
proof (induction xs)
  case Nil
  show ?case by simp
next
  case (Cons p xs)
  let ?n = "\<lambda>ys. length (filter (\<lambda>d. dataId d = k) (map toData (filter isUnlocked (map snd ys))))"
  obtain k' a' where p: "p = (k', a')" by (cases p)
  from Cons.prems p have k': "achId a' = k'" and notin: "k' \<notin> fst ` set xs"
    and rest: "distinct (map fst xs)" "list_all (\<lambda>(k, a). achId a = k) xs"
    by simp_all
  have IH: "?n xs = (if (\<exists>a. map_of xs k = Some a \<and> unlocked a) then 1 else 0)"
    by (rule Cons.IH [OF rest])
  have hd: "?n (p # xs) = (if unlocked a' \<and> k' = k then 1 else 0) + ?n xs"
    using p k' by (simp add: isUnlocked_def toData_def)
  show ?case
  proof (cases "k' = k")
    case True
    with notin have "map_of xs k = None"
      by (simp add: map_of_eq_None_iff)
    with IH have "?n xs = 0" by simp
    with hd True p show ?thesis by simp
  next
    case False
    then have "map_of (p # xs) k = map_of xs k" using p by simp
    with hd False IH show ?thesis by simp
  qed
qed

lemma tracker_trace_last: "last (tracker_trace t ops) = tracker_run t ops"
proof (induction ops arbitrary: t)
  case Nil
  show ?case by simp
next
  case (Cons op ops)
  obtain ss where "tracker_trace (tracker_step op t) ops = tracker_step op t # ss"
    using tracker_trace_hd by blast
  with Cons.IH [of "tracker_step op t"] show ?case by simp
qed

text \<open>
  Claim C7. Along every sequence of \<^verbatim>\<open>checkLessonCompletion\<close> and \<^verbatim>\<open>checkStreak\<close> calls
  on a new tracker, each achievement goes from locked to unlocked at most once and never
  from unlocked to locked. Once an achievement is unlocked, a further \<^verbatim>\<open>unlock\<close> leaves
  it as it is, and so do all further calls of the two methods: its state and its unlock
  timestamp stay those of the first unlock. The list of \<^verbatim>\<open>getUnlockedAchievements\<close> has
  exactly one entry for the id of an unlocked achievement and none for any other id.
\<close>

theorem C7_achievement_unlock_once:
  "unlock_transitions k (tracker_trace (new_AchievementTracker uid) ops) \<le> 1
   \<and> relock_transitions k (tracker_trace (new_AchievementTracker uid) ops) = 0
   \<and> (\<forall>a. map_of (achievements (tracker_run (new_AchievementTracker uid) ops)) k = Some a
            \<and> unlocked a \<longrightarrow>
          unlock now a = a
          \<and> map_of (achievements (tracker_run (new_AchievementTracker uid) (ops @ ops'))) k = Some a)
   \<and> length (filter (\<lambda>d. dataId d = k)
          (getUnlockedAchievements (tracker_run (new_AchievementTracker uid) ops)))
       = (if entry_unlocked k (tracker_run (new_AchievementTracker uid) ops) then 1 else 0)"
proof (intro conjI allI impI)
  show "unlock_transitions k (tracker_trace (new_AchievementTracker uid) ops) \<le> 1"
    by (rule unlock_transitions_le_1)
next
  show "relock_transitions k (tracker_trace (new_AchievementTracker uid) ops) = 0"
    by (rule relock_transitions_0)
next
  fix a
  assume "map_of (achievements (tracker_run (new_AchievementTracker uid) ops)) k = Some a
      \<and> unlocked a"
  then show "unlock now a = a" by (simp add: unlock_unlocked)
next
  fix a
  assume "map_of (achievements (tracker_run (new_AchievementTracker uid) ops)) k = Some a
      \<and> unlocked a"
  then have "map_of (achievements
      (tracker_run (tracker_run (new_AchievementTracker uid) ops) ops')) k = Some a"
    by (simp add: tracker_run_keeps)
  then show "map_of (achievements (tracker_run (new_AchievementTracker uid) (ops @ ops'))) k
      = Some a"
    by (simp add: tracker_run_append)
next
  let ?t = "tracker_run (new_AchievementTracker uid) ops"
  have "tracker_wf ?t"
    by (simp add: tracker_run_wf new_AchievementTracker_wf)
  then have "length (filter (\<lambda>d. dataId d = k) (getUnlockedAchievements ?t))
      = (if (\<exists>a. map_of (achievements ?t) k = Some a \<and> unlocked a) then 1 else 0)"
    unfolding getUnlockedAchievements_def tracker_wf_def
    by (intro count_unlocked_entries) simp_all
  also have "(\<exists>a. map_of (achievements ?t) k = Some a \<and> unlocked a) = entry_unlocked k ?t"
    by (auto simp: entry_unlocked_def split: option.splits)
  finally show "length (filter (\<lambda>d. dataId d = k) (getUnlockedAchievements ?t))
      = (if entry_unlocked k ?t then 1 else 0)" .
qed

theorem C7_achievement_unlock_once_witness:
  "map_of (achievements (tracker_run (new_AchievementTracker ''u'')
        [CheckLessonCompletion 5 6 1])) ''first-lesson''
     = Some \<lparr>achId = ''first-lesson'', achName = ''First Steps'',
              achDescription = ''Complete your first lesson'', achTier = bronze,
              unlocked = True, unlockedAt = Some 5\<rparr>
   \<and> map_of (achievements (tracker_run (new_AchievementTracker ''u'')
        ([CheckLessonCompletion 5 6 1] @ [CheckLessonCompletion 7 8 10, CheckStreak 9 10 7])))
        ''first-lesson''
     = Some \<lparr>achId = ''first-lesson'', achName = ''First Steps'',
              achDescription = ''Complete your first lesson'', achTier = bronze,
              unlocked = True, unlockedAt = Some 5\<rparr>
   \<and> length (filter (\<lambda>d. dataId d = ''first-lesson'')
        (getUnlockedAchievements (tracker_run (new_AchievementTracker ''u'')
           [CheckLessonCompletion 5 6 1]))) = 1"
proof -
  let ?a = "\<lparr>achId = ''first-lesson'', achName = ''First Steps'',
              achDescription = ''Complete your first lesson'', achTier = bronze,
              unlocked = True, unlockedAt = Some 5\<rparr>"
  have h: "map_of (achievements (tracker_run (new_AchievementTracker ''u'')
        [CheckLessonCompletion 5 6 1])) ''first-lesson'' = Some ?a"
    by code_simp
  have u: "unlocked ?a" by simp
  have e: "entry_unlocked ''first-lesson'' (tracker_run (new_AchievementTracker ''u'')
        [CheckLessonCompletion 5 6 1])"
    using h by (simp add: entry_unlocked_def)
  from C7_achievement_unlock_once [of "''first-lesson''" "''u''" "[CheckLessonCompletion 5 6 1]" 0
      "[CheckLessonCompletion 7 8 10, CheckStreak 9 10 7]"] h u e
  show ?thesis by simp
qed

section \<open>Which operations depend on the clock\<close>

text \<open>
  Claim C8, as stated, fails: \<^verbatim>\<open>Achievement.unlock\<close>, \<^verbatim>\<open>EnergySystem.recordAnswer\<close> and
  \<^verbatim>\<open>EnergySystem.refill\<close> have no timestamp parameter, and from the same state and the same
  arguments they give different states when the clock shows different times.
\<close>

theorem C8_clock_counterexample:
  "unlock 1000 (new_Achievement ''first-lesson'' ''First Steps'' ''Complete your first lesson'' bronze)
     \<noteq> unlock 2000 (new_Achievement ''first-lesson'' ''First Steps'' ''Complete your first lesson'' bronze)
   \<and> EnergySystem_recordAnswer 1000 False (new_EnergySystem 0 5)
     \<noteq> EnergySystem_recordAnswer 2000 False (new_EnergySystem 0 5)
   \<and> refill 1000 (new_EnergySystem 0 5) \<noteq> refill 2000 (new_EnergySystem 0 5)"
  by (simp add: unlock_def new_Achievement_def EnergySystem_recordAnswer_def refill_def
      new_EnergySystem_def)

text \<open>
  With a date given, \<^verbatim>\<open>recordActivity\<close> does not read the clock, but it reads the
  calendar day of the date in the host's local time: the same calls give different
  streaks on hosts with different offsets from UTC.
\<close>

lemma recordActivity_host_dependence:
  "recordActivity New_York_2024 0 (Some 1710172800000)
       (recordActivity New_York_2024 0 (Some 1710086400000) (new_UserProgress ''u''))
     \<noteq> recordActivity (fixed_offset (- 5 * msPerHour)) 0 (Some 1710172800000)
         (recordActivity (fixed_offset (- 5 * msPerHour)) 0 (Some 1710086400000)
            (new_UserProgress ''u''))"
  by code_simp

text \<open>
  Claim C8, amended. \<^verbatim>\<open>regenerate\<close> and \<^verbatim>\<open>recordActivity\<close> take an explicit time, and
  given one their result does not depend on the clock: for the same state, the same time
  given and, for \<^verbatim>\<open>recordActivity\<close>, the same offset of the host from UTC, it is the same
  whatever the clock shows. \<^verbatim>\<open>unlock\<close>, the constructor of the energy system, its
  \<^verbatim>\<open>recordAnswer\<close> and its \<^verbatim>\<open>refill\<close> take no time; the timestamp they store
  (\<^verbatim>\<open>unlockedAt\<close>, \<^verbatim>\<open>lastUpdate\<close>) is the clock's value, while the unlocked flag and the
  energy they produce are the same whatever the clock shows.
\<close>

theorem C8_clock_dependence:
  "regenerate now (Some t) e = regenerate now' (Some t) e
   \<and> recordActivity tza now (Some d) u = recordActivity tza now' (Some d) u
   \<and> unlocked (unlock now a) = unlocked (unlock now' a)
   \<and> unlockedAt (unlock now a) = (if unlocked a then unlockedAt a else Some now)
   \<and> currentEnergy (new_EnergySystem now m) = currentEnergy (new_EnergySystem now' m)
   \<and> lastUpdate (new_EnergySystem now m) = now
   \<and> currentEnergy (EnergySystem_recordAnswer now c e)
       = currentEnergy (EnergySystem_recordAnswer now' c e)
   \<and> lastUpdate (EnergySystem_recordAnswer now c e)
       = (if \<not> c \<and> currentEnergy e > 0 then now else lastUpdate e)
   \<and> currentEnergy (refill now e) = currentEnergy (refill now' e)
   \<and> lastUpdate (refill now e) = now"
proof (intro conjI)
  show "regenerate now (Some t) e = regenerate now' (Some t) e"
    by (simp add: regenerate_def)
  show "recordActivity tza now (Some d) u = recordActivity tza now' (Some d) u"
    by (simp add: recordActivity_def)
  show "unlocked (unlock now a) = unlocked (unlock now' a)"
    by (simp add: unlock_def)
  show "unlockedAt (unlock now a) = (if unlocked a then unlockedAt a else Some now)"
    by (simp add: unlock_def)
  show "currentEnergy (new_EnergySystem now m) = currentEnergy (new_EnergySystem now' m)"
    by (simp add: new_EnergySystem_def)
  show "lastUpdate (new_EnergySystem now m) = now"
    by (simp add: new_EnergySystem_def)
  show "currentEnergy (EnergySystem_recordAnswer now c e)
       = currentEnergy (EnergySystem_recordAnswer now' c e)"
    by (simp add: EnergySystem_recordAnswer_def)
  show "lastUpdate (EnergySystem_recordAnswer now c e)
       = (if \<not> c \<and> currentEnergy e > 0 then now else lastUpdate e)"
    by (simp add: EnergySystem_recordAnswer_def)
  show "currentEnergy (refill now e) = currentEnergy (refill now' e)"
    by (simp add: refill_def)
  show "lastUpdate (refill now e) = now"
    by (simp add: refill_def)
qed

section \<open>Properties of the experience points\<close>

lemma updateLevel_loop_fields:
  "updateLevel_loop n u = u\<lparr>level := level (updateLevel_loop n u)\<rparr>"
  by (induction n) simp_all

lemma updateLevel_loop_level:
  assumes "\<exists>i<n. XP_THRESHOLDS ! i \<le> xp u"
  shows "level (updateLevel_loop n u) = int (Max {i. i < n \<and> XP_THRESHOLDS ! i \<le> xp u}) + 1"
  using assms
proof (induction n)
  case 0
  then show ?case by simp
next
  case (Suc n)
  show ?case
  proof (cases "XP_THRESHOLDS ! n \<le> xp u")
    case True
    have "Max {i. i < Suc n \<and> XP_THRESHOLDS ! i \<le> xp u} = n"
    proof (rule Max_eqI)
      show "finite {i. i < Suc n \<and> XP_THRESHOLDS ! i \<le> xp u}" by simp
      show "y \<le> n" if "y \<in> {i. i < Suc n \<and> XP_THRESHOLDS ! i \<le> xp u}" for y
        using that by simp
      show "n \<in> {i. i < Suc n \<and> XP_THRESHOLDS ! i \<le> xp u}"
        using True by simp
    qed
    with True show ?thesis by simp
  next
    case False
    then have same: "{i. i < Suc n \<and> XP_THRESHOLDS ! i \<le> xp u}
        = {i. i < n \<and> XP_THRESHOLDS ! i \<le> xp u}"
      using less_Suc_eq by auto
    from Suc.prems False have "\<exists>i<n. XP_THRESHOLDS ! i \<le> xp u"
      using less_Suc_eq by auto
    then have "level (updateLevel_loop n u)
        = int (Max {i. i < n \<and> XP_THRESHOLDS ! i \<le> xp u}) + 1"
      by (rule Suc.IH)
    with False same show ?thesis by simp
  qed
qed

lemma threshold_zero: "0 \<le> x \<Longrightarrow> \<exists>i<length XP_THRESHOLDS. XP_THRESHOLDS ! i \<le> x"
  by (rule exI [of _ 0]) (simp add: XP_THRESHOLDS_def)

lemma highest_threshold_index_set:
  "highest_threshold_index x = Max {i. i < length XP_THRESHOLDS \<and> XP_THRESHOLDS ! i \<le> x}"
proof -
  have "set (filter (\<lambda>i. XP_THRESHOLDS ! i \<le> x) [0..<length XP_THRESHOLDS])
      = {i. i < length XP_THRESHOLDS \<and> XP_THRESHOLDS ! i \<le> x}"
    by auto
  then show ?thesis by (simp add: highest_threshold_index_def)
qed

lemma updateLevel_spec:
  assumes "0 \<le> xp u"
  shows "updateLevel u = u\<lparr>level := spec_level (xp u)\<rparr>"
proof -
  from assms have "level (updateLevel_loop (length XP_THRESHOLDS) u)
      = int (Max {i. i < length XP_THRESHOLDS \<and> XP_THRESHOLDS ! i \<le> xp u}) + 1"
    by (intro updateLevel_loop_level threshold_zero)
  then have "level (updateLevel u) = spec_level (xp u)"
    by (simp add: updateLevel_def spec_level_def highest_threshold_index_set)
  moreover have "updateLevel u = u\<lparr>level := level (updateLevel u)\<rparr>"
    unfolding updateLevel_def by (rule updateLevel_loop_fields)
  ultimately show ?thesis by simp
qed

lemma highest_threshold_index_less:
  assumes "0 \<le> x"
  shows "highest_threshold_index x < length XP_THRESHOLDS"
proof -
  let ?S = "{i. i < length XP_THRESHOLDS \<and> XP_THRESHOLDS ! i \<le> x}"
  have "finite ?S" by simp
  moreover from assms have "?S \<noteq> {}" using threshold_zero by auto
  ultimately have "Max ?S \<in> ?S" by (rule Max_in)
  then show ?thesis by (simp add: highest_threshold_index_set)
qed

lemma spec_level_bounds: "0 \<le> x \<Longrightarrow> 1 \<le> spec_level x \<and> spec_level x \<le> 8"
  using highest_threshold_index_less [of x]
  by (simp add: spec_level_def XP_THRESHOLDS_def)

lemma spec_level_top: "8000 \<le> x \<Longrightarrow> spec_level x = 8"
proof -
  assume x: "8000 \<le> x"
  let ?S = "{i. i < length XP_THRESHOLDS \<and> XP_THRESHOLDS ! i \<le> x}"
  have "Max ?S = 7"
  proof (rule Max_eqI)
    show "finite ?S" by simp
    show "y \<le> 7" if "y \<in> ?S" for y using that by (simp add: XP_THRESHOLDS_def)
    show "7 \<in> ?S" using x by (simp add: XP_THRESHOLDS_def)
  qed
  then show ?thesis by (simp add: spec_level_def highest_threshold_index_set)
qed

lemma addXP_spec:
  assumes "0 \<le> xp u"
  shows "addXP amount u =
     (if amount < 0 then (Inl (Error ''XP must be positive''), u)
      else (Inr (level u < spec_level (xp u + amount)),
            u\<lparr>xp := xp u + amount, level := spec_level (xp u + amount)\<rparr>))"
proof (cases "amount < 0")
  case True
  then show ?thesis by (simp add: addXP_def)
next
  case False
  with assms have "0 \<le> xp (u\<lparr>xp := xp u + amount\<rparr>)" by simp
  then have "updateLevel (u\<lparr>xp := xp u + amount\<rparr>)
      = u\<lparr>xp := xp u + amount, level := spec_level (xp u + amount)\<rparr>"
    by (simp add: updateLevel_spec)
  with False show ?thesis by (simp add: addXP_def Let_def)
qed

lemma user_step_xp_nonneg: "0 \<le> xp u \<Longrightarrow> 0 \<le> xp (user_step tza op u)"
proof (cases op)
  case (AddXP amount)
  assume "0 \<le> xp u"
  then show ?thesis using AddXP by (simp add: addXP_spec)
next
  case (RecordActivity now dateArg)
  assume "0 \<le> xp u"
  then show ?thesis using RecordActivity
    by (simp add: recordActivity_def Let_def split: option.split)
next
  case (CompleteLesson lessonId)
  assume "0 \<le> xp u"
  then show ?thesis using CompleteLesson by (simp add: completeLesson_def)
qed

lemma user_run_xp_nonneg: "0 \<le> xp u \<Longrightarrow> 0 \<le> xp (user_run tza u ops)"
  by (induction ops arbitrary: u) (simp_all add: user_step_xp_nonneg)

text \<open>The experience never decreases along a run.\<close>

lemma user_step_xp_mono: "0 \<le> xp u \<Longrightarrow> xp u \<le> xp (user_step tza op u)"
proof (cases op)
  case (AddXP amount)
  assume "0 \<le> xp u"
  then show ?thesis using AddXP by (simp add: addXP_spec)
next
  case (RecordActivity now dateArg)
  then show ?thesis
    by (simp add: recordActivity_def Let_def split: option.split)
next
  case (CompleteLesson lessonId)
  then show ?thesis by (simp add: completeLesson_def)
qed

lemma user_run_xp_mono: "0 \<le> xp u \<Longrightarrow> xp u \<le> xp (user_run tza u ops)"
proof (induction ops arbitrary: u)
  case Nil
  show ?case by simp
next
  case (Cons op ops)
  from Cons.prems have "xp u \<le> xp (user_step tza op u)"
    by (rule user_step_xp_mono)
  also from Cons.prems have "\<dots> \<le> xp (user_run tza (user_step tza op u) ops)"
    by (intro Cons.IH user_step_xp_nonneg)
  finally show ?case by simp
qed

lemma new_UserProgress_xp: "0 \<le> xp (new_UserProgress uid)"
  by (simp add: new_UserProgress_def)

text \<open>
  Claim C3. In every state a user's progress can reach, \<^verbatim>\<open>addXP(amount)\<close> with a negative
  amount throws and leaves the object as it was (experience and level included). With an
  amount that is not negative it adds the amount to the experience, sets the level to one
  more than the highest index of a threshold not exceeding the new experience, changes
  nothing else, and returns whether the new level is above the old one. The thresholds
  are 0, 100, 250, 500, 1000, 2000, 4000, 8000, so the level is between 1 and 8, and it
  is 8 from 8000 points on. The experience, before the call and with the amount added, is
  a safe integer.
\<close>

theorem C3_addXP_atomic_and_level:
  assumes "xp (user_run tza (new_UserProgress uid) ops) + max 0 amount \<le> MAX_SAFE_INTEGER"
  shows "addXP amount (user_run tza (new_UserProgress uid) ops) =
     (if amount < 0
      then (Inl (Error ''XP must be positive''), user_run tza (new_UserProgress uid) ops)
      else (Inr (level (user_run tza (new_UserProgress uid) ops)
                   < spec_level (xp (user_run tza (new_UserProgress uid) ops) + amount)),
            (user_run tza (new_UserProgress uid) ops)
              \<lparr>xp := xp (user_run tza (new_UserProgress uid) ops) + amount,
               level := spec_level (xp (user_run tza (new_UserProgress uid) ops) + amount)\<rparr>))
   \<and> (0 \<le> amount \<longrightarrow>
        1 \<le> spec_level (xp (user_run tza (new_UserProgress uid) ops) + amount)
        \<and> spec_level (xp (user_run tza (new_UserProgress uid) ops) + amount) \<le> 8
        \<and> (8000 \<le> xp (user_run tza (new_UserProgress uid) ops) + amount \<longrightarrow>
             spec_level (xp (user_run tza (new_UserProgress uid) ops) + amount) = 8))
   \<and> XP_THRESHOLDS = [0, 100, 250, 500, 1000, 2000, 4000, 8000]"
proof -
  let ?u = "user_run tza (new_UserProgress uid) ops"
  have nonneg: "0 \<le> xp ?u"
    by (simp add: user_run_xp_nonneg new_UserProgress_xp)
  then have call: "addXP amount ?u =
     (if amount < 0 then (Inl (Error ''XP must be positive''), ?u)
      else (Inr (level ?u < spec_level (xp ?u + amount)),
            ?u\<lparr>xp := xp ?u + amount, level := spec_level (xp ?u + amount)\<rparr>))"
    by (rule addXP_spec)
  have range: "1 \<le> spec_level (xp ?u + amount) \<and> spec_level (xp ?u + amount) \<le> 8"
    if "0 \<le> amount"
    using that nonneg by (intro spec_level_bounds) simp
  have top: "spec_level (xp ?u + amount) = 8" if "8000 \<le> xp ?u + amount"
    using that by (rule spec_level_top)
  from call range top show ?thesis
    by (simp add: XP_THRESHOLDS_def)
qed

theorem C3_addXP_atomic_and_level_witness:
  "xp (user_run (fixed_offset 0) (new_UserProgress ''u'') [AddXP 50]) + max 0 8000
     \<le> MAX_SAFE_INTEGER
   \<and> addXP 50 (user_run (fixed_offset 0) (new_UserProgress ''u'') [AddXP 50])
     = (Inr True, \<lparr>userId = ''u'', xp = 100, level = 2, streak = 0, lastActivityDate = None,
                   completedLessons = []\<rparr>)
   \<and> addXP (- 10) (user_run (fixed_offset 0) (new_UserProgress ''u'') [AddXP 50])
     = (Inl (Error ''XP must be positive''),
        \<lparr>userId = ''u'', xp = 50, level = 1, streak = 0, lastActivityDate = None,
          completedLessons = []\<rparr>)
   \<and> addXP 8000 (user_run (fixed_offset 0) (new_UserProgress ''u'') [AddXP 50])
     = (Inr True, \<lparr>userId = ''u'', xp = 8050, level = 8, streak = 0, lastActivityDate = None,
                   completedLessons = []\<rparr>)"
proof -
  have u: "user_run (fixed_offset 0) (new_UserProgress ''u'') [AddXP 50]
      = \<lparr>userId = ''u'', xp = 50, level = 1, streak = 0, lastActivityDate = None,
          completedLessons = []\<rparr>"
    by code_simp
  have s: "xp (user_run (fixed_offset 0) (new_UserProgress ''u'') [AddXP 50]) + max 0 a
      \<le> MAX_SAFE_INTEGER" if "a \<le> 8000" for a
    using that unfolding u by (simp add: MAX_SAFE_INTEGER_def)
  have l: "spec_level 100 = 2"
    by code_simp
  have l8: "spec_level 8050 = 8"
    by code_simp
  from C3_addXP_atomic_and_level [of "fixed_offset 0" "''u''" "[AddXP 50]" 50, OF s]
       C3_addXP_atomic_and_level [of "fixed_offset 0" "''u''" "[AddXP 50]" "- 10", OF s]
       C3_addXP_atomic_and_level [of "fixed_offset 0" "''u''" "[AddXP 50]" 8000, OF s]
       s [of 8000]
  show ?thesis
    unfolding u by (simp add: l l8)
qed

section \<open>Properties of the question engine\<close>

text \<open>
  Claim C1, as stated, fails: for two empty strings the test \<^verbatim>\<open>str1 === str2\<close> comes first
  and \<^verbatim>\<open>calculateSimilarity\<close> returns 1.
\<close>

theorem C1_similarity_empty_counterexample: "calculateSimilarity '''' '''' \<noteq> 0"
  by (simp add: calculateSimilarity_def)

text \<open>
  Claim C1, amended. The similarity of the two empty strings is 1, as it is for any two
  equal strings; the similarity of the empty string and any other string is 0.
\<close>

theorem C1_similarity_empty:
  "calculateSimilarity '''' '''' = 1
   \<and> calculateSimilarity s s = 1
   \<and> calculateSimilarity '''' s = (if s = '''' then 1 else 0)
   \<and> calculateSimilarity s '''' = (if s = '''' then 1 else 0)"
  by (simp add: calculateSimilarity_def)

lemma calculatePoints_True:
  "calculatePoints q True isFirstTry
     = basePoints (getDifficulty q) + (if isFirstTry then 5 else 0)"
  by (simp add: calculatePoints_def basePoints_def)

lemma translation_loop_points:
  "translation_loop q normalized isFirstTry accs = Some r \<Longrightarrow>
   isCorrect r \<and> points r = calculatePoints q True isFirstTry"
  by (induction accs) (auto simp: Let_def split: if_splits)

lemma fillInBlank_loop_points:
  "fillInBlank_loop q normalized isFirstTry accs = Some r \<Longrightarrow>
   isCorrect r \<and> points r = calculatePoints q True isFirstTry"
  by (induction accs) (auto split: if_splits)

text \<open>
  Claim C6. Whatever the kind of question, its difficulty and the answer: a result of
  \<^verbatim>\<open>checkAnswer\<close> that is not correct carries 0 points, and one that is correct carries
  the base points of the difficulty (5 for easy, 10 for medium, 15 for hard), and 5 more
  when \<^verbatim>\<open>isFirstTry\<close> is true.
\<close>

theorem C6_points_formula:
  assumes "checkAnswer q answer isFirstTry = Inr r"
  shows "points r = (if isCorrect r
                     then basePoints (getDifficulty q) + (if isFirstTry then 5 else 0)
                     else 0)
         \<and> basePoints easy = 5 \<and> basePoints medium = 10 \<and> basePoints hard = 15"
proof -
  have "points r = (if isCorrect r then calculatePoints q True isFirstTry else 0)"
  proof (cases q)
    case (MultipleChoiceQuestion prompt choices correctIndex difficulty)
    with assms show ?thesis
      by (auto simp: Let_def split: option.splits if_splits)
  next
    case (TranslationQuestion prompt sourceText acceptedTranslations difficulty)
    with assms show ?thesis
      by (auto simp: Let_def split: option.splits dest: translation_loop_points)
  next
    case (FillInBlankQuestion prompt correctAns acceptedAnswers difficulty)
    with assms show ?thesis
      by (auto simp: Let_def split: option.splits dest: fillInBlank_loop_points)
  qed
  then show ?thesis
    by (simp add: calculatePoints_True basePoints_def)
qed

theorem C6_points_formula_witness:
  "checkAnswer (MultipleChoiceQuestion ''Greeting?'' [''Hello'', ''Goodbye''] 0 hard) '' hello '' True
     = Inr \<lparr>isCorrect = True, feedback = ''Correct!'', points = 20, correctAnswer = None\<rparr>
   \<and> points \<lparr>isCorrect = True, feedback = ''Correct!'', points = 20, correctAnswer = None\<rparr>
     = basePoints hard + 5"
proof -
  have h: "checkAnswer (MultipleChoiceQuestion ''Greeting?'' [''Hello'', ''Goodbye''] 0 hard)
      '' hello '' True
     = Inr \<lparr>isCorrect = True, feedback = ''Correct!'', points = 20, correctAnswer = None\<rparr>"
    by code_simp
  from C6_points_formula [OF h] h show ?thesis by simp
qed

text \<open>
  Claim C10. \<^verbatim>\<open>MultipleChoiceQuestion.checkAnswer\<close> returns a result exactly when the
  correct index is an index of the choice list. With any other index the choice read is
  \<^verbatim>\<open>undefined\<close> and the call of \<^verbatim>\<open>toLowerCase\<close> on it throws; with an index of the list
  that branch is not taken and the result says whether the trimmed, lower-cased answer
  is the lower-cased choice.
\<close>

theorem C10_multiple_choice_total:
  "(0 \<le> correctIndex \<and> correctIndex < int (length choices) \<longrightarrow>
      (\<exists>r. checkAnswer (MultipleChoiceQuestion txt choices correctIndex difficulty) answer isFirstTry
              = Inr r
            \<and> isCorrect r = (toLowerCase (trim answer) = toLowerCase (choices ! nat correctIndex))))
   \<and> (\<not> (0 \<le> correctIndex \<and> correctIndex < int (length choices)) \<longrightarrow>
      checkAnswer (MultipleChoiceQuestion txt choices correctIndex difficulty) answer isFirstTry
        = Inl TypeError)"
  by (simp add: js_index_def Let_def)

theorem C10_multiple_choice_total_witness:
  "checkAnswer (MultipleChoiceQuestion ''Greeting?'' [''Hello'', ''Goodbye''] 1 easy) ''hello'' False
     = Inr \<lparr>isCorrect = False, feedback = ''Incorrect. The correct answer is: Goodbye'',
             points = 0, correctAnswer = Some ''Goodbye''\<rparr>
   \<and> checkAnswer (MultipleChoiceQuestion ''Greeting?'' [''Hello'', ''Goodbye''] 2 easy) ''hello'' False
     = Inl TypeError
   \<and> checkAnswer (MultipleChoiceQuestion ''Greeting?'' [''Hello'', ''Goodbye''] (- 1) easy) ''hello'' False
     = Inl TypeError"
proof -
  have a: "checkAnswer (MultipleChoiceQuestion ''Greeting?'' [''Hello'', ''Goodbye''] 1 easy)
      ''hello'' False
     = Inr \<lparr>isCorrect = False, feedback = ''Incorrect. The correct answer is: Goodbye'',
             points = 0, correctAnswer = Some ''Goodbye''\<rparr>"
    by code_simp
  from a
    C10_multiple_choice_total [of 1 "[''Hello'', ''Goodbye'']" "''Greeting?''" easy "''hello''" False]
    C10_multiple_choice_total [of 2 "[''Hello'', ''Goodbye'']" "''Greeting?''" easy "''hello''" False]
    C10_multiple_choice_total [of "- 1" "[''Hello'', ''Goodbye'']" "''Greeting?''" easy "''hello''" False]
  show ?thesis by simp
qed






section \<open>Properties of the activity streak\<close>

text \<open>
  On a host whose local time keeps a constant offset from UTC, \<^verbatim>\<open>recordActivity\<close> counts
  calendar days: the difference it computes is the difference of the two local days.
\<close>

lemma stripTime_fixed_offset:
  "stripTime (fixed_offset off) t = Day (t + off) * msPerDay - off"
  by (simp add: stripTime_def UTC_def LocalTime_def fixed_offset_def)

lemma Day_stripTime_fixed_offset:
  "Day (stripTime (fixed_offset off) t + off) = Day (t + off)"
  by (simp add: stripTime_fixed_offset Day_def msPerDay_def)

lemma getDaysDifference_fixed_offset:
  "getDaysDifference (stripTime (fixed_offset off) (stripTime (fixed_offset off) lastDate))
       (stripTime (fixed_offset off) date)
     = Day (date + off) - Day (lastDate + off)"
proof -
  have "stripTime (fixed_offset off) (stripTime (fixed_offset off) lastDate)
      = Day (lastDate + off) * msPerDay - off"
    by (simp add: stripTime_fixed_offset [of off "stripTime (fixed_offset off) lastDate"]
        Day_stripTime_fixed_offset)
  moreover have "(Day (date + off) * msPerDay - off) - (Day (lastDate + off) * msPerDay - off)
      = (Day (date + off) - Day (lastDate + off)) * msPerDay"
    by (simp add: algebra_simps)
  moreover have "msPerDay \<noteq> 0"
    by (simp add: msPerDay_def)
  ultimately show ?thesis
    by (simp add: getDaysDifference_def stripTime_fixed_offset [of off date])
qed

lemma recordActivity_fixed_offset:
  "streak (recordActivity (fixed_offset off) now (Some date) u) =
     (case lastActivityDate u of
        None \<Rightarrow> 1
      | Some lastDate \<Rightarrow>
          if Day (date + off) = Day (lastDate + off) then streak u
          else if Day (date + off) = Day (lastDate + off) + 1 then streak u + 1
          else 1)"
proof (cases "lastActivityDate u")
  case None
  then show ?thesis by (simp add: recordActivity_def)
next
  case (Some lastDate)
  then show ?thesis
    by (simp add: recordActivity_def Let_def getDaysDifference_def stripTime_fixed_offset
        Day_def msPerDay_def)
qed

text \<open>
  Claim C2 says that a call one calendar day after the last recorded date adds 1 to the
  streak, and that a gap of two days resets it. The code takes the number of days between
  two local midnights to be their distance in milliseconds divided by 24 hours, rounded
  down. On a host with daylight saving time the day on which the clocks go forward has 23
  hours. With the rules of New York in 2024: noon of 10 March and noon of 11 March are on
  consecutive local days, and the second call leaves the streak at 1; noon of 9 March and
  noon of 11 March are two days apart, and the second call raises the streak to 2. On a
  host five hours behind UTC all year the same calls give 2 and 1.
\<close>

theorem C2_streak_daylight_saving:
  "Day (LocalTime New_York_2024 1710003600000) = 19791
   \<and> Day (LocalTime New_York_2024 1710086400000) = 19792
   \<and> Day (LocalTime New_York_2024 1710172800000) = 19793
   \<and> streak (user_run New_York_2024 (new_UserProgress ''u'')
        [RecordActivity 0 (Some 1710086400000)]) = 1
   \<and> streak (user_run New_York_2024 (new_UserProgress ''u'')
        [RecordActivity 0 (Some 1710086400000), RecordActivity 0 (Some 1710172800000)]) = 1
   \<and> streak (user_run New_York_2024 (new_UserProgress ''u'')
        [RecordActivity 0 (Some 1710003600000), RecordActivity 0 (Some 1710172800000)]) = 2
   \<and> streak (user_run (fixed_offset (- 5 * msPerHour)) (new_UserProgress ''u'')
        [RecordActivity 0 (Some 1710086400000), RecordActivity 0 (Some 1710172800000)]) = 2
   \<and> streak (user_run (fixed_offset (- 5 * msPerHour)) (new_UserProgress ''u'')
        [RecordActivity 0 (Some 1710003600000), RecordActivity 0 (Some 1710172800000)]) = 1"
  by code_simp

end
